theory Spec2Isabelle
  imports Main "HOL-Library.Word"
begin

section \<open>JavaScript values used by the file-upload client\<close>

text \<open>
  A JavaScript string is a sequence of 16-bit code units; \<open>s.length\<close> counts code units.
  \<open>js\<close> embeds an ASCII literal of the source.
\<close>

type_synonym jsstring = "16 word list"

definition js :: "string \<Rightarrow> jsstring" where
  "js s = map (\<lambda>c. of_nat (of_char c)) s"

text \<open>
  An argument that the caller may leave out: \<open>undefined\<close>, \<open>null\<close> or a value.
  \<open>show_arg\<close> is the string that \<open>'...' + x + '...'\<close> concatenates for a string-typed
  argument.
\<close>

datatype 'a js_arg = Undefined | Null | Val 'a

fun show_arg :: "jsstring js_arg \<Rightarrow> jsstring" where
  "show_arg Undefined = js ''undefined''"
| "show_arg Null = js ''null''"
| "show_arg (Val s) = s"

text \<open>\<open>!x\<close> for a string-typed argument: \<open>undefined\<close>, \<open>null\<close> and \<open>''\<close> are falsy.\<close>

fun falsy_string :: "jsstring js_arg \<Rightarrow> bool" where
  "falsy_string Undefined = True"
| "falsy_string Null = True"
| "falsy_string (Val s) = (s = [])"

text \<open>
  A value of type \<open>any\<close>, as far as \<open>if (x)\<close> and \<open>x ? a : b\<close> see it: \<open>ToBoolean\<close> is false
  for exactly the falsy values below and true for every other value, which is kept as it
  is.
\<close>

datatype falsy_value =
    UndefinedValue
  | NullValue
  | FalseValue
  | Zero
  | NegativeZero
  | NaN
  | EmptyString
  | ZeroBigInt

datatype 'a js_any = Falsy falsy_value | Truthy 'a

text \<open>The exceptions the code and the built-ins it calls can throw.\<close>

datatype error =
    ReferenceError jsstring
  | URIError
  | SyntaxError
  | TypeError
  | ArgumentError jsstring

section \<open>FileUploadApi: construction\<close>

text \<open>
  The \<open>http\<close> field holds either the value given to the constructor as \<open>httpTransport\<close>,
  when that value is truthy, or a fresh \<open>azure-iot-http-base.Http\<close>.
\<close>

datatype 't transport = DefaultHttpTransport | Injected 't

record 't FileUploadApi =
  deviceId :: jsstring
  hostname :: jsstring
  http :: "'t transport"

definition new_FileUploadApi ::
  "jsstring js_arg \<Rightarrow> jsstring js_arg \<Rightarrow> 't js_any \<Rightarrow> error + 't FileUploadApi" where
  "new_FileUploadApi deviceId' hostname' httpTransport =
     (if falsy_string deviceId' then
        Inl (ReferenceError (js ''deviceId cannot be '' @ [0x27] @ show_arg deviceId' @ [0x27]))
      else if falsy_string hostname' then
        Inl (ReferenceError (js ''hostname cannot be '' @ [0x27] @ show_arg hostname' @ [0x27]))
      else
        Inr \<lparr> deviceId = show_arg deviceId',
              hostname = show_arg hostname',
              http = (case httpTransport of
                        Truthy t \<Rightarrow> Injected t
                      | Falsy _ \<Rightarrow> DefaultHttpTransport) \<rparr>)"

section \<open>Built-ins of the language that the client calls\<close>

subsection \<open>encodeURIComponent\<close>

text \<open>
  ECMAScript \<open>Encode(string, unescapedSet)\<close> with the unreserved set of
  \<open>encodeURIComponent\<close>: letters, digits and \<open>- _ . ! ~ * ' ( )\<close> are copied; any other
  code point is written as the percent-escaped octets of its UTF-8 encoding; an unpaired
  surrogate throws \<open>URIError\<close>.
\<close>

definition uriUnreserved :: "16 word \<Rightarrow> bool" where
  "uriUnreserved c =
     (c \<in> set (js ''ABCDEFGHIJKLMNOPQRSTUVWXYZabcdefghijklmnopqrstuvwxyz0123456789-_.!~*()'')
      \<or> c = 0x27)"

definition isLeadSurrogate :: "16 word \<Rightarrow> bool" where
  "isLeadSurrogate c = (0xD800 \<le> c \<and> c \<le> 0xDBFF)"

definition isTrailSurrogate :: "16 word \<Rightarrow> bool" where
  "isTrailSurrogate c = (0xDC00 \<le> c \<and> c \<le> 0xDFFF)"

definition surrogatePairToCodePoint :: "16 word \<Rightarrow> 16 word \<Rightarrow> nat" where
  "surrogatePairToCodePoint lead trail =
     (unat lead - 0xD800) * 0x400 + (unat trail - 0xDC00) + 0x10000"

definition utf8 :: "nat \<Rightarrow> nat list" where
  "utf8 cp =
     (if cp < 0x80 then [cp]
      else if cp < 0x800 then [0xC0 + cp div 64, 0x80 + cp mod 64]
      else if cp < 0x10000 then
        [0xE0 + cp div 4096, 0x80 + (cp div 64) mod 64, 0x80 + cp mod 64]
      else
        [0xF0 + cp div 262144, 0x80 + (cp div 4096) mod 64,
         0x80 + (cp div 64) mod 64, 0x80 + cp mod 64])"

definition hexUpper :: "nat \<Rightarrow> 16 word" where
  "hexUpper d = (if d < 10 then of_nat (48 + d) else of_nat (55 + d))"

definition percentOctet :: "nat \<Rightarrow> jsstring" where
  "percentOctet b = [0x25, hexUpper (b div 16), hexUpper (b mod 16)]"

definition percentEncode :: "nat \<Rightarrow> jsstring" where
  "percentEncode cp = concat (map percentOctet (utf8 cp))"

definition prepend :: "jsstring \<Rightarrow> error + jsstring \<Rightarrow> error + jsstring" where
  "prepend p r = (case r of Inl e \<Rightarrow> Inl e | Inr s \<Rightarrow> Inr (p @ s))"

fun encodeURIComponent :: "jsstring \<Rightarrow> error + jsstring" where
  "encodeURIComponent [] = Inr []"
| "encodeURIComponent (c # cs) =
     (if uriUnreserved c then prepend [c] (encodeURIComponent cs)
      else if isTrailSurrogate c then Inl URIError
      else if isLeadSurrogate c then
        (case cs of
           [] \<Rightarrow> Inl URIError
         | d # ds \<Rightarrow>
             if isTrailSurrogate d
             then prepend (percentEncode (surrogatePairToCodePoint c d)) (encodeURIComponent ds)
             else Inl URIError)
      else prepend (percentEncode (unat c)) (encodeURIComponent cs))"

text \<open>
  \<open>String.prototype.isWellFormed\<close>: the string has no unpaired surrogate, that is, every
  lead surrogate is followed by a trail surrogate and every trail surrogate follows a
  lead surrogate.
\<close>

fun isWellFormed :: "jsstring \<Rightarrow> bool" where
  "isWellFormed [] = True"
| "isWellFormed (c # cs) =
     (if isTrailSurrogate c then False
      else if isLeadSurrogate c then
        (case cs of [] \<Rightarrow> False | d # ds \<Rightarrow> isTrailSurrogate d \<and> isWellFormed ds)
      else isWellFormed cs)"

subsection \<open>JSON.stringify of a string\<close>

text \<open>
  ECMAScript \<open>QuoteJSONString\<close>: the string between double quotes, with the double quote
  and the backslash escaped, the control characters written as \<open>\b \t \n \f \r\<close> or
  \<open>\u00xx\<close>, and an unpaired surrogate written as \<open>\udxxx\<close>.
\<close>

definition hexLower :: "nat \<Rightarrow> 16 word" where
  "hexLower d = (if d < 10 then of_nat (48 + d) else of_nat (87 + d))"

definition UnicodeEscape :: "16 word \<Rightarrow> jsstring" where
  "UnicodeEscape c =
     (let n = unat c in
      [0x5C, 0x75, hexLower (n div 4096), hexLower ((n div 256) mod 16),
       hexLower ((n div 16) mod 16), hexLower (n mod 16)])"

fun quoteChars :: "jsstring \<Rightarrow> jsstring" where
  "quoteChars [] = []"
| "quoteChars (c # cs) =
     (if c = 0x08 then [0x5C, 0x62] @ quoteChars cs
      else if c = 0x09 then [0x5C, 0x74] @ quoteChars cs
      else if c = 0x0A then [0x5C, 0x6E] @ quoteChars cs
      else if c = 0x0C then [0x5C, 0x66] @ quoteChars cs
      else if c = 0x0D then [0x5C, 0x72] @ quoteChars cs
      else if c = 0x22 then [0x5C, 0x22] @ quoteChars cs
      else if c = 0x5C then [0x5C, 0x5C] @ quoteChars cs
      else if c < 0x20 \<or> isTrailSurrogate c then UnicodeEscape c @ quoteChars cs
      else if isLeadSurrogate c then
        (case cs of
           [] \<Rightarrow> UnicodeEscape c
         | d # ds \<Rightarrow>
             if isTrailSurrogate d then c # d # quoteChars ds
             else UnicodeEscape c @ quoteChars cs)
      else c # quoteChars cs)"

definition QuoteJSONString :: "jsstring \<Rightarrow> jsstring" where
  "QuoteJSONString s = [0x22] @ quoteChars s @ [0x22]"

subsection \<open>JSON.parse\<close>

text \<open>
  The value \<open>JSON.parse\<close> returns. A number is kept as the numeric literal of the text
  (its conversion to a double is not modelled). An object has one member for each key, in
  the order in which its own properties are enumerated.
\<close>

datatype json =
    JNull
  | JBool bool
  | JNumber jsstring
  | JString jsstring
  | JArray "json list"
  | JObject "(jsstring \<times> json) list"

text \<open>
  \<open>CreateDataProperty\<close> on the list of the own properties of an object, in the order of
  their creation: a key that the object has already keeps its place and takes the new
  value, a new key is added at the end.
\<close>

fun CreateDataProperty ::
  "(jsstring \<times> json) list \<Rightarrow> jsstring \<Rightarrow> json \<Rightarrow> (jsstring \<times> json) list" where
  "CreateDataProperty [] k v = [(k, v)]"
| "CreateDataProperty ((k', v') # ms) k v =
     (if k' = k then (k, v) # ms else (k', v') # CreateDataProperty ms k v)"

text \<open>
  The order of the own properties of an ordinary object: the keys that are array indices
  (the decimal numerals of 0 to 4294967294, without leading zero) in ascending order, then
  the other keys in the order of their creation.
\<close>

definition numeralValue :: "jsstring \<Rightarrow> int" where
  "numeralValue k = foldl (\<lambda>n c. 10 * n + (uint c - 0x30)) 0 k"

definition isArrayIndex :: "jsstring \<Rightarrow> bool" where
  "isArrayIndex k =
     (k \<noteq> [] \<and> (\<forall>c \<in> set k. 0x30 \<le> c \<and> c \<le> 0x39) \<and> (k = [0x30] \<or> take 1 k \<noteq> [0x30])
      \<and> numeralValue k \<le> 4294967294)"

definition OrdinaryOwnProperties :: "(jsstring \<times> json) list \<Rightarrow> (jsstring \<times> json) list" where
  "OrdinaryOwnProperties ms =
     sort_key (\<lambda>m. numeralValue (fst m)) (filter (\<lambda>m. isArrayIndex (fst m)) ms)
     @ filter (\<lambda>m. \<not> isArrayIndex (fst m)) ms"

text \<open>
  The JSON grammar (ECMA-404, which \<open>JSON.parse\<close> accepts exactly) read one code unit at
  a time by a machine with a stack of the arrays and objects that are still open.
  An array frame holds the elements read so far, newest first; an object frame holds the
  properties created so far and the key of the member being read.
\<close>

datatype frame =
    FArray "json list"
  | FObject "(jsstring \<times> json) list" jsstring

datatype numstate = NMinus | NZero | NInt | NDot | NFrac | NExp | NExpSign | NExpDigits

datatype mode =
    MValue
  | MArrayStart
  | MObjectStart
  | MKey
  | MColon
  | MAfter json
  | MString bool jsstring
  | MEscape bool jsstring
  | MHex bool jsstring nat nat
  | MNumber numstate jsstring
  | MLiteral jsstring json

definition isWhitespace :: "16 word \<Rightarrow> bool" where
  "isWhitespace c = (c = 0x20 \<or> c = 0x09 \<or> c = 0x0A \<or> c = 0x0D)"

definition isDigit :: "16 word \<Rightarrow> bool" where
  "isDigit c = (0x30 \<le> c \<and> c \<le> 0x39)"

definition hexValue :: "16 word \<Rightarrow> nat option" where
  "hexValue c =
     (if 0x30 \<le> c \<and> c \<le> 0x39 then Some (unat c - 0x30)
      else if 0x41 \<le> c \<and> c \<le> 0x46 then Some (unat c - 0x41 + 10)
      else if 0x61 \<le> c \<and> c \<le> 0x66 then Some (unat c - 0x61 + 10)
      else None)"

text \<open>The first code unit of a value.\<close>

definition startValue :: "frame list \<Rightarrow> 16 word \<Rightarrow> (mode \<times> frame list) option" where
  "startValue st c =
     (if c = 0x22 then Some (MString False [], st)
      else if c = 0x2D then Some (MNumber NMinus [c], st)
      else if c = 0x30 then Some (MNumber NZero [c], st)
      else if isDigit c then Some (MNumber NInt [c], st)
      else if c = 0x5B then Some (MArrayStart, FArray [] # st)
      else if c = 0x7B then Some (MObjectStart, FObject [] [] # st)
      else if c = 0x74 then Some (MLiteral (js ''rue'') (JBool True), st)
      else if c = 0x66 then Some (MLiteral (js ''alse'') (JBool False), st)
      else if c = 0x6E then Some (MLiteral (js ''ull'') JNull, st)
      else None)"

text \<open>The code unit after a complete value \<open>v\<close>: a separator or the end of the container.\<close>

definition afterValue :: "json \<Rightarrow> frame list \<Rightarrow> 16 word \<Rightarrow> (mode \<times> frame list) option" where
  "afterValue v st c =
     (if isWhitespace c then Some (MAfter v, st)
      else
        (case st of
           [] \<Rightarrow> None
         | FArray es # rest \<Rightarrow>
             if c = 0x2C then Some (MValue, FArray (v # es) # rest)
             else if c = 0x5D then Some (MAfter (JArray (rev (v # es))), rest)
             else None
         | FObject ms k # rest \<Rightarrow>
             if c = 0x2C then Some (MKey, FObject (CreateDataProperty ms k v) k # rest)
             else if c = 0x7D then
               Some (MAfter (JObject (OrdinaryOwnProperties (CreateDataProperty ms k v))), rest)
             else None))"

text \<open>The closing quote of a string: a key is stored in its object frame, a value is complete.\<close>

definition endString :: "bool \<Rightarrow> jsstring \<Rightarrow> frame list \<Rightarrow> (mode \<times> frame list) option" where
  "endString isKey s st =
     (if isKey then
        (case st of
           FObject ms _ # rest \<Rightarrow> Some (MColon, FObject ms s # rest)
         | _ \<Rightarrow> None)
      else Some (MAfter (JString s), st))"

definition numberAccepts :: "numstate \<Rightarrow> bool" where
  "numberAccepts n = (n = NZero \<or> n = NInt \<or> n = NFrac \<or> n = NExpDigits)"

text \<open>The next state of a numeric literal, when the code unit continues it.\<close>

definition numberNext :: "numstate \<Rightarrow> 16 word \<Rightarrow> numstate option" where
  "numberNext n c =
     (case n of
        NMinus \<Rightarrow> if c = 0x30 then Some NZero else if isDigit c then Some NInt else None
      | NZero \<Rightarrow>
          if c = 0x2E then Some NDot else if c = 0x65 \<or> c = 0x45 then Some NExp else None
      | NInt \<Rightarrow>
          if isDigit c then Some NInt else if c = 0x2E then Some NDot
          else if c = 0x65 \<or> c = 0x45 then Some NExp else None
      | NDot \<Rightarrow> if isDigit c then Some NFrac else None
      | NFrac \<Rightarrow>
          if isDigit c then Some NFrac else if c = 0x65 \<or> c = 0x45 then Some NExp else None
      | NExp \<Rightarrow>
          if c = 0x2B \<or> c = 0x2D then Some NExpSign
          else if isDigit c then Some NExpDigits else None
      | NExpSign \<Rightarrow> if isDigit c then Some NExpDigits else None
      | NExpDigits \<Rightarrow> if isDigit c then Some NExpDigits else None)"

fun step :: "mode \<times> frame list \<Rightarrow> 16 word \<Rightarrow> (mode \<times> frame list) option" where
  "step (MValue, st) c = (if isWhitespace c then Some (MValue, st) else startValue st c)"
| "step (MArrayStart, st) c =
     (if isWhitespace c then Some (MArrayStart, st)
      else if c = 0x5D then
        (case st of FArray es # rest \<Rightarrow> Some (MAfter (JArray (rev es)), rest) | _ \<Rightarrow> None)
      else startValue st c)"
| "step (MObjectStart, st) c =
     (if isWhitespace c then Some (MObjectStart, st)
      else if c = 0x7D then
        (case st of FObject ms _ # rest \<Rightarrow> Some (MAfter (JObject ms), rest) | _ \<Rightarrow> None)
      else if c = 0x22 then Some (MString True [], st)
      else None)"
| "step (MKey, st) c =
     (if isWhitespace c then Some (MKey, st)
      else if c = 0x22 then Some (MString True [], st)
      else None)"
| "step (MColon, st) c =
     (if isWhitespace c then Some (MColon, st)
      else if c = 0x3A then Some (MValue, st)
      else None)"
| "step (MAfter v, st) c = afterValue v st c"
| "step (MString isKey acc, st) c =
     (if c = 0x22 then endString isKey (rev acc) st
      else if c = 0x5C then Some (MEscape isKey acc, st)
      else if c < 0x20 then None
      else Some (MString isKey (c # acc), st))"
| "step (MEscape isKey acc, st) c =
     (if c = 0x22 \<or> c = 0x5C \<or> c = 0x2F then Some (MString isKey (c # acc), st)
      else if c = 0x62 then Some (MString isKey (0x08 # acc), st)
      else if c = 0x66 then Some (MString isKey (0x0C # acc), st)
      else if c = 0x6E then Some (MString isKey (0x0A # acc), st)
      else if c = 0x72 then Some (MString isKey (0x0D # acc), st)
      else if c = 0x74 then Some (MString isKey (0x09 # acc), st)
      else if c = 0x75 then Some (MHex isKey acc 0 0, st)
      else None)"
| "step (MHex isKey acc k v, st) c =
     (case hexValue c of
        None \<Rightarrow> None
      | Some d \<Rightarrow>
          if k = 3 then Some (MString isKey (of_nat (v * 16 + d) # acc), st)
          else Some (MHex isKey acc (k + 1) (v * 16 + d), st))"
| "step (MNumber n acc, st) c =
     (case numberNext n c of
        Some n' \<Rightarrow> Some (MNumber n' (c # acc), st)
      | None \<Rightarrow> if numberAccepts n then afterValue (JNumber (rev acc)) st c else None)"
| "step (MLiteral [] v, st) c = None"
| "step (MLiteral (x # xs) v, st) c =
     (if c \<noteq> x then None
      else if xs = [] then Some (MAfter v, st)
      else Some (MLiteral xs v, st))"

fun run :: "mode \<times> frame list \<Rightarrow> jsstring \<Rightarrow> (mode \<times> frame list) option" where
  "run s [] = Some s"
| "run s (c # cs) = (case step s c of None \<Rightarrow> None | Some s' \<Rightarrow> run s' cs)"

text \<open>At the end of the text one complete value must have been read, with nothing open.\<close>

fun finish :: "(mode \<times> frame list) option \<Rightarrow> error + json" where
  "finish (Some (MAfter v, [])) = Inr v"
| "finish (Some (MNumber n acc, [])) =
     (if numberAccepts n then Inr (JNumber (rev acc)) else Inl SyntaxError)"
| "finish _ = Inl SyntaxError"

definition JSON_parse :: "jsstring \<Rightarrow> error + json" where
  "JSON_parse text = finish (run (MValue, []) text)"

subsection \<open>String.prototype.split on a one-character separator\<close>

fun split :: "'a \<Rightarrow> 'a list \<Rightarrow> 'a list list" where
  "split sep [] = [[]]"
| "split sep (c # cs) =
     (if c = sep then [] # split sep cs
      else (case split sep cs of [] \<Rightarrow> [[c]] | p # ps \<Rightarrow> (c # p) # ps))"

section \<open>FileUploadApi: the two requests\<close>

text \<open>
  What the module reads from outside the class: \<open>package.json\<close> (name and version of the
  SDK), the API version of \<open>endpoint\<close>, and \<open>JSON.stringify\<close> on an upload result, whose
  class \<open>BlobUploadResult\<close> is not among the sources. \<open>JSON.stringify\<close> either throws (a
  cyclic value, a throwing \<open>toJSON\<close>), or returns \<open>undefined\<close> (\<open>None\<close>), or returns the JSON
  text.
\<close>

record 'u environment =
  packageJson_name :: jsstring
  packageJson_version :: jsstring
  apiVersion :: jsstring
  stringify_uploadResult :: "'u \<Rightarrow> error + jsstring option"

text \<open>
  Modelled from the spec: \<open>endpoint.devicePath\<close> and \<open>endpoint.versionQueryString\<close> of
  azure-iot-common are not among the sources. The spec gives the request path as
  \<open>/devices/{deviceId}/files?api-version=...\<close>.
\<close>

definition devicePath :: "jsstring \<Rightarrow> jsstring" where
  "devicePath d = js ''/devices/'' @ d"

definition versionQueryString :: "'u environment \<Rightarrow> jsstring" where
  "versionQueryString env = js ''?api-version='' @ apiVersion env"

text \<open>
  \<open>auth\<close> is a shared access signature given as a string, or an object with the X509
  certificate options.
\<close>

datatype 'c auth = AuthString jsstring | AuthObject 'c

fun falsy_auth :: "'c auth js_arg \<Rightarrow> bool" where
  "falsy_auth Undefined = True"
| "falsy_auth Null = True"
| "falsy_auth (Val (AuthString s)) = (s = [])"
| "falsy_auth (Val (AuthObject _)) = False"

fun show_auth :: "'c auth js_arg \<Rightarrow> jsstring" where
  "show_auth Undefined = js ''undefined''"
| "show_auth Null = js ''null''"
| "show_auth (Val (AuthString s)) = s"
| "show_auth (Val (AuthObject _)) = js ''[object Object]''"

text \<open>
  \<open>done\<close> is a function, or was left out. The function that a method gives to
  \<open>buildRequest\<close> as its last argument is a closure over \<open>done\<close>; the transport runs it when
  it completes. What the closure of each method does is defined in the next section.
\<close>

datatype callback = NoCallback | Callback

datatype completion =
    getBlobSharedAccessSignature_completion callback
  | notifyUploadComplete_completion callback

text \<open>
  The headers object, in insertion order, and the call of \<open>this.http.buildRequest\<close>
  followed by \<open>req.write(body)\<close> and \<open>req.end()\<close>. \<open>req_x509Opts = None\<close> is \<open>null\<close>.
\<close>

datatype header_value = HString jsstring | HNumber nat | HUndefined

record ('t, 'c) request =
  req_transport :: "'t transport"
  req_method :: jsstring
  req_path :: jsstring
  req_headers :: "(jsstring \<times> header_value) list"
  req_host :: jsstring
  req_x509Opts :: "'c option"
  req_callback :: completion
  req_written :: "jsstring list"
  req_ended :: bool

definition apostrophe :: jsstring where
  "apostrophe = [0x27]"

definition getBlobSharedAccessSignature ::
  "'u environment \<Rightarrow> 't FileUploadApi \<Rightarrow> jsstring js_arg \<Rightarrow> 'c auth js_arg \<Rightarrow> callback
     \<Rightarrow> error + ('t, 'c) request" where
  "getBlobSharedAccessSignature env this blobName auth done =
     (if falsy_string blobName then
        Inl (ReferenceError (js ''blobName cannot be '' @ apostrophe @ show_arg blobName @ apostrophe))
      else if falsy_auth auth then
        Inl (ReferenceError (js ''auth cannot be '' @ apostrophe @ show_auth auth @ apostrophe))
      else
        (let path = devicePath (deviceId this) @ js ''/files'' @ versionQueryString env;
             body = js ''{'' @ QuoteJSONString (js ''blobName'') @ js '':''
                      @ QuoteJSONString (show_arg blobName) @ js ''}'';
             headers =
               [(js ''Host'', HString (hostname this)),
                (js ''Accept'', HString (js ''application/json'')),
                (js ''Content-Type'', HString (js ''application/json'')),
                (js ''Content-Length'', HNumber (length body)),
                (js ''User-Agent'',
                   HString (packageJson_name env @ js ''/'' @ packageJson_version env))];
             (headers', x509Opts) =
               (case auth of
                  Val (AuthString s) \<Rightarrow> (headers @ [(js ''Authorization'', HString s)], None)
                | Val (AuthObject x) \<Rightarrow> (headers, Some x)
                | _ \<Rightarrow> (headers, None))
         in Inr \<lparr> req_transport = http this, req_method = js ''POST'', req_path = path,
                  req_headers = headers', req_host = hostname this, req_x509Opts = x509Opts,
                  req_callback = getBlobSharedAccessSignature_completion done,
                  req_written = [body], req_ended = True \<rparr>))"

text \<open>
  In \<open>notifyUploadComplete\<close> the path is built first, so that \<open>encodeURIComponent\<close> throws
  first; then \<open>JSON.stringify(uploadResult)\<close> may throw; then \<open>body.length\<close> throws
  \<open>TypeError\<close> when \<open>body\<close> is \<open>undefined\<close>. All three come before \<open>buildRequest\<close>.
\<close>

definition notifyUploadComplete ::
  "'u environment \<Rightarrow> 't FileUploadApi \<Rightarrow> jsstring js_arg \<Rightarrow> 'c auth js_arg \<Rightarrow> 'u js_arg
     \<Rightarrow> callback \<Rightarrow> error + ('t, 'c) request" where
  "notifyUploadComplete env this correlationId auth uploadResult done =
     (if falsy_string correlationId then
        Inl (ReferenceError
               (js ''correlationId cannot be '' @ apostrophe @ show_arg correlationId @ apostrophe))
      else if falsy_auth auth then
        Inl (ReferenceError (js ''auth cannot be '' @ apostrophe @ show_auth auth @ apostrophe))
      else
        (case uploadResult of
           Undefined \<Rightarrow>
             Inl (ReferenceError
                    (js ''uploadResult cannot be '' @ apostrophe @ js ''undefined'' @ apostrophe))
         | Null \<Rightarrow>
             Inl (ReferenceError
                    (js ''uploadResult cannot be '' @ apostrophe @ js ''null'' @ apostrophe))
         | Val result \<Rightarrow>
             (case encodeURIComponent (show_arg correlationId) of
                Inl e \<Rightarrow> Inl e
              | Inr encoded \<Rightarrow>
                  (case stringify_uploadResult env result of
                     Inl e \<Rightarrow> Inl e
                   | Inr None \<Rightarrow> Inl TypeError
                   | Inr (Some body) \<Rightarrow>
                       (let path = devicePath (deviceId this) @ js ''/files/notifications/''
                                     @ encoded @ versionQueryString env;
                            headers =
                              [(js ''Host'', HString (hostname this)),
                               (js ''User-Agent'',
                                  HString (packageJson_name env @ js ''/''
                                             @ packageJson_version env)),
                               (js ''Content-Type'',
                                  HString (js ''application/json; charset=utf-8'')),
                               (js ''Content-Length'', HNumber (length body)),
                               (js ''iothub-name'',
                                  (case split 0x2E (hostname this) of
                                     [] \<Rightarrow> HUndefined
                                   | label # _ \<Rightarrow> HString label))];
                            (headers', x509Opts) =
                              (case auth of
                                 Val (AuthString s) \<Rightarrow>
                                   (headers @ [(js ''Authorization'', HString s)], None)
                               | Val (AuthObject x) \<Rightarrow> (headers, Some x)
                               | _ \<Rightarrow> (headers, None))
                        in Inr \<lparr> req_transport = http this, req_method = js ''POST'',
                                 req_path = path, req_headers = headers',
                                 req_host = hostname this, req_x509Opts = x509Opts,
                                 req_callback = notifyUploadComplete_completion done,
                                 req_written = [body], req_ended = True \<rparr>)))))"

section \<open>FileUploadApi: completion of the transport\<close>

text \<open>
  The transport completes with \<open>(err, body, response)\<close>, and \<open>err\<close> has no declared type.
  A truthy \<open>err\<close> is a primitive value or an object. The file is in strict mode, where an
  assignment \<open>err.p = v\<close> throws \<open>TypeError\<close> when \<open>err\<close> is a primitive value, and when
  \<open>err\<close> is an object that does not take the property (a frozen object, a read-only
  property); \<open>takes\<close> says which properties the object takes.
\<close>

record 'e js_object =
  object :: 'e
  takes :: "jsstring \<Rightarrow> bool"

datatype ('p, 'e) error_value = PrimitiveValue 'p | ObjectValue "'e js_object"

text \<open>
  The closure either throws or calls \<open>done\<close>; a call is recorded by its argument list.
  Calling \<open>done\<close> when it is \<open>undefined\<close> throws \<open>TypeError\<close>.
\<close>

datatype 'x argument = ANull | AError 'x | AResult json

definition invoke :: "callback \<Rightarrow> 'x argument list \<Rightarrow> error + 'x argument list list" where
  "invoke done args = (case done of NoCallback \<Rightarrow> Inl TypeError | Callback \<Rightarrow> Inr [args])"

text \<open>The error object after \<open>err.responseBody = body; err.response = response\<close>.\<close>

record ('e, 'r) annotated_error =
  err_object :: "'e js_object"
  responseBody :: "jsstring js_arg"
  response :: "'r js_arg"

definition getBlobSharedAccessSignature_completed ::
  "callback \<Rightarrow> ('p, 'e) error_value js_any \<Rightarrow> jsstring js_arg \<Rightarrow> 'r js_arg
     \<Rightarrow> error + ('e, 'r) annotated_error argument list list" where
  "getBlobSharedAccessSignature_completed done err body resp =
     (case err of
        Truthy (PrimitiveValue p) \<Rightarrow> Inl TypeError
      | Truthy (ObjectValue e) \<Rightarrow>
          if \<not> takes e (js ''responseBody'') then Inl TypeError
          else if \<not> takes e (js ''response'') then Inl TypeError
          else invoke done [AError \<lparr> err_object = e, responseBody = body, response = resp \<rparr>]
      | Falsy _ \<Rightarrow>
          (case JSON_parse (show_arg body) of
             Inl thrown \<Rightarrow> Inl thrown
           | Inr result \<Rightarrow> invoke done [ANull, AResult result]))"

definition notifyUploadComplete_completed ::
  "callback \<Rightarrow> 'x js_any \<Rightarrow> error + 'x argument list list" where
  "notifyUploadComplete_completed done err =
     (case err of
        Truthy e \<Rightarrow> invoke done [AError e]
      | Falsy _ \<Rightarrow> invoke done [])"

section \<open>The service connection string\<close>

text \<open>
  Modelled from the spec: \<open>ConnectionString.parse\<close> of azure-iot-common is not among the
  sources. The spec says it splits the source on the delimiter \<open>;\<close> into \<open>Key=Value\<close>
  fields, returns the decomposed mapping, and fails with an argument error naming the
  field when a required field is missing; keys are case-sensitive. A field is cut at its
  first \<open>=\<close>, a later field overrides an earlier one with the same key, and a part
  without \<open>=\<close> adds nothing: the spec does not say otherwise.
\<close>

definition addField :: "(jsstring \<rightharpoonup> jsstring) \<Rightarrow> jsstring \<Rightarrow> (jsstring \<rightharpoonup> jsstring)" where
  "addField m part =
     (if 0x3D \<in> set part
      then m(takeWhile (\<lambda>c. c \<noteq> 0x3D) part \<mapsto> tl (dropWhile (\<lambda>c. c \<noteq> 0x3D) part))
      else m)"

fun firstMissing :: "(jsstring \<rightharpoonup> jsstring) \<Rightarrow> jsstring list \<Rightarrow> jsstring option" where
  "firstMissing m [] = None"
| "firstMissing m (k # ks) = (if m k = None then Some k else firstMissing m ks)"

definition ConnectionString_parse ::
  "jsstring \<Rightarrow> jsstring list \<Rightarrow> error + (jsstring \<rightharpoonup> jsstring)" where
  "ConnectionString_parse source requiredFields =
     (let m = foldl addField Map.empty (split 0x3B source)
      in case firstMissing m requiredFields of
           Some k \<Rightarrow> Inl (ArgumentError k)
         | None \<Rightarrow> Inr m)"

definition parse :: "jsstring \<Rightarrow> error + (jsstring \<rightharpoonup> jsstring)" where
  "parse source =
     ConnectionString_parse source
       [js ''HostName'', js ''SharedAccessKeyName'', js ''SharedAccessKey'']"

text \<open>
  The format of the spec, \<open>Key=Value;Key=Value...\<close>, read on its own: the source has the
  field \<open>k\<close> with value \<open>v\<close> when one of its \<open>;\<close>-separated parts is \<open>k=v\<close>, the key
  being what stands before the first \<open>=\<close>.
\<close>

definition hasField :: "jsstring \<Rightarrow> jsstring \<Rightarrow> jsstring \<Rightarrow> bool" where
  "hasField source k v \<longleftrightarrow> 0x3D \<notin> set k \<and> k @ [0x3D] @ v \<in> set (split 0x3B source)"

section \<open>Example inputs\<close>

text \<open>
  A module environment and a client used where a property is evaluated on concrete data.
  The upload results of the example are one that \<open>JSON.stringify\<close> writes as a JSON text,
  one that refers to itself, on which it throws \<open>TypeError\<close>, and one whose \<open>toJSON\<close>
  returns \<open>undefined\<close>, for which it returns \<open>undefined\<close>.
\<close>

datatype example_result = Uploaded | Cyclic | ToJSONUndefined

fun example_stringify :: "example_result \<Rightarrow> error + jsstring option" where
  "example_stringify Uploaded = Inr (Some (js ''{}''))"
| "example_stringify Cyclic = Inl TypeError"
| "example_stringify ToJSONUndefined = Inr None"

definition example_env :: "example_result environment" where
  "example_env =
     \<lparr> packageJson_name = js ''azure-iot-device'', packageJson_version = js ''1.0.0'',
       apiVersion = js ''2016-11-14'', stringify_uploadResult = example_stringify \<rparr>"

definition example_api :: "unit FileUploadApi" where
  "example_api =
     \<lparr> deviceId = js ''dev1'', hostname = js ''hub.example.net'',
       http = DefaultHttpTransport \<rparr>"

text \<open>An ordinary error object, which takes every property, and a frozen one.\<close>

definition ordinary_error :: "unit js_object" where
  "ordinary_error = \<lparr> object = (), takes = (\<lambda>_. True) \<rparr>"

definition frozen_error :: "unit js_object" where
  "frozen_error = \<lparr> object = (), takes = (\<lambda>_. False) \<rparr>"

section \<open>Properties of the constructor and of argument validation\<close>

text \<open>
  C7. The constructor throws \<open>ReferenceError\<close> when the device identifier or the hostname
  is \<open>undefined\<close>, \<open>null\<close> or the empty string. For a non-empty pair it succeeds, stores
  both unchanged, and keeps the transport it was given, which as an object is truthy; it
  takes the default transport when none was given (\<open>undefined\<close>), and for \<open>null\<close> and the
  other falsy values.
\<close>

theorem constructor_validates:
  "(d \<in> {Undefined, Null, Val []} \<or> h \<in> {Undefined, Null, Val []}
      \<longrightarrow> (\<exists>msg. new_FileUploadApi d h t = Inl (ReferenceError msg)))
   \<and> (dv \<noteq> [] \<and> hv \<noteq> [] \<longrightarrow>
        new_FileUploadApi (Val dv) (Val hv) (Truthy x) =
          Inr \<lparr> deviceId = dv, hostname = hv, http = Injected x \<rparr>
        \<and> new_FileUploadApi (Val dv) (Val hv) (Falsy f) =
          Inr \<lparr> deviceId = dv, hostname = hv, http = (DefaultHttpTransport :: 't transport) \<rparr>)"
  by (auto simp: new_FileUploadApi_def)

theorem constructor_validates_witness:
  "(\<exists>msg. new_FileUploadApi (Val []) (Val (js ''hub.example.net'')) (Falsy UndefinedValue :: unit js_any)
            = Inl (ReferenceError msg))
   \<and> new_FileUploadApi (Val (js ''dev1'')) (Val (js ''hub.example.net'')) (Truthy ()) =
        Inr \<lparr> deviceId = js ''dev1'', hostname = js ''hub.example.net'', http = Injected () \<rparr>
   \<and> new_FileUploadApi (Val (js ''dev1'')) (Val (js ''hub.example.net'')) (Falsy Zero) =
        Inr \<lparr> deviceId = js ''dev1'', hostname = js ''hub.example.net'',
              http = (DefaultHttpTransport :: unit transport) \<rparr>"
  using constructor_validates [of "Val []" "Val (js ''hub.example.net'')"
      "Falsy UndefinedValue :: unit js_any" "js ''dev1''" "js ''hub.example.net''" "()" Zero]
  by (auto simp: js_def)

text \<open>
  C6. With a required argument missing (\<open>undefined\<close>, \<open>null\<close>, or for a string the empty
  string), each operation throws \<open>ReferenceError\<close> and builds no request:
  \<open>getBlobSharedAccessSignature\<close> for \<open>blobName\<close> or \<open>auth\<close>, \<open>notifyUploadComplete\<close> for
  \<open>correlationId\<close>, \<open>auth\<close> or \<open>uploadResult\<close>.
\<close>

theorem missing_argument_throws:
  "(blobName \<in> {Undefined, Null, Val []} \<or> auth \<in> {Undefined, Null, Val (AuthString [])}
      \<longrightarrow> (\<exists>msg. getBlobSharedAccessSignature env this blobName auth done
                   = Inl (ReferenceError msg)))
   \<and> (correlationId \<in> {Undefined, Null, Val []} \<or> auth \<in> {Undefined, Null, Val (AuthString [])}
        \<or> uploadResult \<in> {Undefined, Null}
      \<longrightarrow> (\<exists>msg. notifyUploadComplete env this correlationId auth uploadResult done'
                   = Inl (ReferenceError msg)))"
  by (auto simp: getBlobSharedAccessSignature_def notifyUploadComplete_def)

theorem missing_argument_throws_witness:
  "(\<exists>msg. getBlobSharedAccessSignature example_env example_api (Val (js ''a.txt''))
             (Val (AuthString []) :: unit auth js_arg) Callback = Inl (ReferenceError msg))
   \<and> (\<exists>msg. notifyUploadComplete example_env example_api (Val (js ''c1''))
             (Val (AuthString []) :: unit auth js_arg) Undefined Callback
             = Inl (ReferenceError msg))"
  using missing_argument_throws [of "Val (js ''a.txt'')" "Val (AuthString []) :: unit auth js_arg"
      example_env example_api Callback "Val (js ''c1'')" Undefined Callback]
  by auto

section \<open>Properties of the completion functions\<close>

text \<open>
  C10. When \<open>notifyUploadComplete\<close> was called without \<open>done\<close>, the completion of the
  transport, with an error or without, throws \<open>TypeError\<close> from calling \<open>undefined\<close>.
\<close>

theorem omitted_callback_throws:
  "notifyUploadComplete_completed NoCallback err = Inl TypeError"
  by (simp add: notifyUploadComplete_completed_def invoke_def split: js_any.splits)

text \<open>
  C4, as stated, fails: when the transport completes with an error that is a frozen
  object, or with the string \<open>timeout\<close> as error, the completion function of
  \<open>getBlobSharedAccessSignature\<close> throws \<open>TypeError\<close> on \<open>err.responseBody = body\<close> and
  \<open>done\<close> is not called.
\<close>

theorem completion_reaches_callback_counterexample:
  "getBlobSharedAccessSignature_completed Callback
     (Truthy (ObjectValue frozen_error) :: (jsstring, unit) error_value js_any)
     (Val (js ''Bad Gateway'')) (Null :: unit js_arg) = Inl TypeError
   \<and> getBlobSharedAccessSignature_completed Callback
     (Truthy (PrimitiveValue (js ''timeout'')) :: (jsstring, unit) error_value js_any)
     (Val (js ''Bad Gateway'')) (Null :: unit js_arg) = Inl TypeError"
  by (simp add: getBlobSharedAccessSignature_completed_def frozen_error_def)

text \<open>
  C4, amended. For \<open>getBlobSharedAccessSignature\<close>: a transport error that is an object
  taking the properties \<open>responseBody\<close> and \<open>response\<close> reaches \<open>done\<close> as its only
  argument, with the response body and the response object attached to it; with an error
  that is a primitive value, or an object that does not take these properties, the
  completion function throws \<open>TypeError\<close> and \<open>done\<close> is not called; a completion without
  error whose body is valid JSON calls \<open>done(null, result)\<close> with the decoded body. For
  \<open>notifyUploadComplete\<close>, a transport error is passed to \<open>done\<close>, and a completion
  without error calls \<open>done()\<close> with no argument.
\<close>

theorem completion_reaches_callback:
  "(takes e (js ''responseBody'') \<and> takes e (js ''response'') \<longrightarrow>
      getBlobSharedAccessSignature_completed Callback
        (Truthy (ObjectValue e) :: ('p, 'e) error_value js_any) body (resp :: 'r js_arg) =
        Inr [[AError \<lparr> err_object = e, responseBody = body, response = resp \<rparr>]])
   \<and> (\<not> (takes e (js ''responseBody'') \<and> takes e (js ''response'')) \<longrightarrow>
      getBlobSharedAccessSignature_completed done
        (Truthy (ObjectValue e) :: ('p, 'e) error_value js_any) body resp = Inl TypeError)
   \<and> getBlobSharedAccessSignature_completed done
        (Truthy (PrimitiveValue p) :: ('p, 'e) error_value js_any) body resp = Inl TypeError
   \<and> (JSON_parse (show_arg body) = Inr result \<longrightarrow>
        getBlobSharedAccessSignature_completed Callback
          (Falsy f :: ('p, 'e) error_value js_any) body resp =
          Inr [[ANull, AResult result]])
   \<and> notifyUploadComplete_completed Callback (Truthy x :: 'x js_any) = Inr [[AError x]]
   \<and> notifyUploadComplete_completed Callback (Falsy f' :: 'x js_any) = Inr [[]]"
  by (auto simp: getBlobSharedAccessSignature_completed_def notifyUploadComplete_completed_def
        invoke_def)

theorem completion_reaches_callback_witness:
  \<open>getBlobSharedAccessSignature_completed Callback
      (Truthy (ObjectValue ordinary_error) :: (jsstring, unit) error_value js_any)
      (Val (js ''Bad Gateway'')) (Null :: unit js_arg) =
     Inr [[AError \<lparr> err_object = ordinary_error, responseBody = Val (js ''Bad Gateway''),
                     response = Null \<rparr>]]
   \<and> getBlobSharedAccessSignature_completed Callback
      (Falsy NullValue :: (jsstring, unit) error_value js_any)
      (Val (js ''{"correlationId":"c1"}'')) (Null :: unit js_arg) =
     Inr [[ANull, AResult (JObject [(js ''correlationId'', JString (js ''c1''))])]]
   \<and> notifyUploadComplete_completed Callback (Falsy UndefinedValue :: unit js_any) = Inr [[]]\<close>
proof -
  have p: \<open>JSON_parse (show_arg (Val (js ''{"correlationId":"c1"}'')))
             = Inr (JObject [(js ''correlationId'', JString (js ''c1''))])\<close>
    by code_simp
  have o: "takes ordinary_error (js ''responseBody'') \<and> takes ordinary_error (js ''response'')"
    by (simp add: ordinary_error_def)
  note t = completion_reaches_callback [where e = ordinary_error
      and resp = "Null :: unit js_arg" and ?done = Callback and p = "js ''timeout''"
      and result = "JObject [(js ''correlationId'', JString (js ''c1''))]"
      and f = NullValue and x = "()" and f' = UndefinedValue]
  from t [where body = "Val (js ''Bad Gateway'')"] o
  have a: "getBlobSharedAccessSignature_completed Callback
      (Truthy (ObjectValue ordinary_error) :: (jsstring, unit) error_value js_any)
      (Val (js ''Bad Gateway'')) (Null :: unit js_arg) =
     Inr [[AError \<lparr> err_object = ordinary_error, responseBody = Val (js ''Bad Gateway''),
                     response = Null \<rparr>]]"
    by blast
  from t [where body = \<open>Val (js ''{"correlationId":"c1"}'')\<close>] p
  have b: \<open>getBlobSharedAccessSignature_completed Callback
      (Falsy NullValue :: (jsstring, unit) error_value js_any)
      (Val (js ''{"correlationId":"c1"}'')) (Null :: unit js_arg) =
     Inr [[ANull, AResult (JObject [(js ''correlationId'', JString (js ''c1''))])]]\<close>
    by blast
  from t [where body = "Val (js ''Bad Gateway'')"]
  have c: "notifyUploadComplete_completed Callback (Falsy UndefinedValue :: unit js_any)
             = Inr [[]]"
    by blast
  from a b c show ?thesis by simp
qed

text \<open>
  C8. When the transport completes without error and \<open>JSON.parse\<close> throws on the body, the
  completion function of \<open>getBlobSharedAccessSignature\<close> throws that exception and does
  not call \<open>done\<close>; the body \<open><html>\<close> is such a completion.
\<close>

theorem malformed_body_throws:
  "JSON_parse (show_arg body) = Inl thrown \<Longrightarrow>
     getBlobSharedAccessSignature_completed done (Falsy f) body resp = Inl thrown"
  by (simp add: getBlobSharedAccessSignature_completed_def)

theorem malformed_body_throws_witness:
  "getBlobSharedAccessSignature_completed Callback
     (Falsy NullValue :: (jsstring, unit) error_value js_any) (Val (js ''<html>''))
     (Null :: unit js_arg) = Inl SyntaxError"
proof -
  have p: "JSON_parse (show_arg (Val (js ''<html>''))) = Inl SyntaxError"
    by code_simp
  show ?thesis
    by (rule malformed_body_throws [OF p])
qed




section \<open>Properties of the requests\<close>

lemma header_names_distinct:
  "js ''Authorization'' \<noteq> js ''Host''"
  "js ''Authorization'' \<noteq> js ''Accept''"
  "js ''Authorization'' \<noteq> js ''Content-Type''"
  "js ''Authorization'' \<noteq> js ''Content-Length''"
  "js ''Authorization'' \<noteq> js ''User-Agent''"
  "js ''Authorization'' \<noteq> js ''iothub-name''"
  by (simp_all add: js_def)

text \<open>
  C1. In every request that either operation gives to the transport: when \<open>auth\<close> is a
  string, the headers have \<open>Authorization\<close> equal to it and the certificate options are
  \<open>null\<close>; when \<open>auth\<close> is an object, there is no \<open>Authorization\<close> header and the object is
  the certificate options.
\<close>

theorem auth_variant:
  assumes "getBlobSharedAccessSignature env this blobName auth done = Inr req
           \<or> notifyUploadComplete env this correlationId auth uploadResult done' = Inr req"
  shows "(\<forall>s. auth = Val (AuthString s) \<longrightarrow>
            map_of (req_headers req) (js ''Authorization'') = Some (HString s)
            \<and> req_x509Opts req = None)
         \<and> (\<forall>x. auth = Val (AuthObject x) \<longrightarrow>
            map_of (req_headers req) (js ''Authorization'') = None
            \<and> req_x509Opts req = Some x)"
  using assms
  by (auto simp: getBlobSharedAccessSignature_def notifyUploadComplete_def Let_def
        header_names_distinct
        split: if_splits js_arg.splits sum.splits option.splits)

theorem auth_variant_witness:
  "map_of (req_headers (projr (getBlobSharedAccessSignature example_env example_api
       (Val (js ''a.txt'')) (Val (AuthString (js ''sas'')) :: unit auth js_arg) Callback)))
     (js ''Authorization'') = Some (HString (js ''sas''))
   \<and> req_x509Opts (projr (notifyUploadComplete example_env example_api
       (Val (js ''c1'')) (Val (AuthObject ())) (Val Uploaded) Callback)) = Some ()"
proof -
  obtain req where r: "getBlobSharedAccessSignature example_env example_api
       (Val (js ''a.txt'')) (Val (AuthString (js ''sas'')) :: unit auth js_arg) Callback = Inr req"
    by (simp add: getBlobSharedAccessSignature_def Let_def js_def)
  have e: "encodeURIComponent (js ''c1'') = Inr (js ''c1'')"
    by code_simp
  obtain req' where r': "notifyUploadComplete example_env example_api
       (Val (js ''c1'')) (Val (AuthObject ())) (Val Uploaded) Callback = Inr req'"
    using e by (simp add: notifyUploadComplete_def Let_def example_env_def) (simp add: js_def)
  from auth_variant [OF disjI1, OF r] auth_variant [OF disjI2, OF r'] show ?thesis
    by (simp add: r r')
qed

text \<open>
  C2. For a non-empty blob name and an \<open>auth\<close> that is an object or a non-empty string,
  \<open>getBlobSharedAccessSignature\<close> gives the transport a \<open>POST\<close> to
  \<open>/devices/<deviceId>/files?api-version=<api-version>\<close>, writes the JSON text of
  \<open>{blobName: blobName}\<close> as the body, and sets \<open>Host\<close> to the hostname, \<open>Accept\<close> and
  \<open>Content-Type\<close> to \<open>application/json\<close>, \<open>Content-Length\<close> to the length of the body and
  \<open>User-Agent\<close> to the name and version of the SDK.
\<close>

theorem credential_request:
  assumes "blobName \<noteq> []" and "auth = AuthObject x \<or> (auth = AuthString s \<and> s \<noteq> [])"
  shows \<open>\<exists>req body.
     getBlobSharedAccessSignature env this (Val blobName) (Val auth) done = Inr req
     \<and> req_transport req = http this
     \<and> req_method req = js ''POST''
     \<and> req_path req = js ''/devices/'' @ deviceId this @ js ''/files?api-version='' @ apiVersion env
     \<and> req_host req = hostname this
     \<and> body = js ''{"blobName":'' @ QuoteJSONString blobName @ js ''}''
     \<and> req_written req = [body] \<and> req_ended req
     \<and> map_of (req_headers req) (js ''Host'') = Some (HString (hostname this))
     \<and> map_of (req_headers req) (js ''Accept'') = Some (HString (js ''application/json''))
     \<and> map_of (req_headers req) (js ''Content-Type'') = Some (HString (js ''application/json''))
     \<and> map_of (req_headers req) (js ''Content-Length'') = Some (HNumber (length body))
     \<and> map_of (req_headers req) (js ''User-Agent'') =
          Some (HString (packageJson_name env @ js ''/'' @ packageJson_version env))\<close>
  using assms
  by (auto simp: getBlobSharedAccessSignature_def Let_def devicePath_def versionQueryString_def
        js_def QuoteJSONString_def isTrailSurrogate_def isLeadSurrogate_def)

theorem credential_request_witness:
  \<open>\<exists>req. getBlobSharedAccessSignature example_env example_api (Val (js ''a.txt''))
            (Val (AuthString (js ''sas'')) :: unit auth js_arg) Callback = Inr req
     \<and> req_path req = js ''/devices/dev1/files?api-version=2016-11-14''
     \<and> req_written req = [js ''{"blobName":"a.txt"}'']
     \<and> map_of (req_headers req) (js ''Content-Length'') = Some (HNumber 20)
     \<and> map_of (req_headers req) (js ''User-Agent'')
          = Some (HString (js ''azure-iot-device/1.0.0''))\<close>
proof -
  have n: "js ''a.txt'' \<noteq> []" by (simp add: js_def)
  from credential_request [OF n, of "AuthString (js ''sas'')" "()" "js ''sas''"
      example_env example_api Callback]
  show ?thesis
    by (auto simp: example_env_def example_api_def js_def QuoteJSONString_def
          isTrailSurrogate_def isLeadSurrogate_def)
qed

subsection \<open>What encodeURIComponent returns\<close>

lemma unreserved_not_surrogate:
  "uriUnreserved c \<Longrightarrow> \<not> isLeadSurrogate c \<and> \<not> isTrailSurrogate c"
  by (auto simp: uriUnreserved_def js_def isLeadSurrogate_def isTrailSurrogate_def)

lemma encode_well_formed:
  "isWellFormed s \<Longrightarrow> \<exists>e. encodeURIComponent s = Inr e"
proof (induction s rule: encodeURIComponent.induct)
  case 1
  show ?case by simp
next
  case (2 c cs)
  show ?case
  proof (cases "uriUnreserved c")
    case True
    then have ns: "\<not> isLeadSurrogate c" "\<not> isTrailSurrogate c"
      using unreserved_not_surrogate by blast+
    with "2.prems" have "isWellFormed cs" by simp
    with "2.IH"(1) True obtain e where "encodeURIComponent cs = Inr e" by blast
    with True show ?thesis by (simp add: prepend_def)
  next
    case False
    note nu = this
    from "2.prems" have nt: "\<not> isTrailSurrogate c" by (simp split: if_splits)
    show ?thesis
    proof (cases "isLeadSurrogate c")
      case True
      with "2.prems" nt obtain d ds where cs: "cs = d # ds" and d: "isTrailSurrogate d"
        and wf: "isWellFormed ds"
        by (cases cs) auto
      from "2.IH"(2) [OF nu nt True cs d] wf obtain e where "encodeURIComponent ds = Inr e"
        by blast
      with nu nt True cs d show ?thesis by (simp add: prepend_def)
    next
      case False
      with "2.prems" nt have "isWellFormed cs" by simp
      with "2.IH"(3) [OF nu nt False] obtain e where "encodeURIComponent cs = Inr e" by blast
      with nu nt False show ?thesis by (simp add: prepend_def)
    qed
  qed
qed

lemma encode_ill_formed:
  "\<not> isWellFormed s \<Longrightarrow> encodeURIComponent s = Inl URIError"
proof (induction s rule: encodeURIComponent.induct)
  case 1
  then show ?case by simp
next
  case (2 c cs)
  show ?case
  proof (cases "uriUnreserved c")
    case True
    then have ns: "\<not> isLeadSurrogate c" "\<not> isTrailSurrogate c"
      using unreserved_not_surrogate by blast+
    with "2.prems" have "\<not> isWellFormed cs" by simp
    with "2.IH"(1) True have "encodeURIComponent cs = Inl URIError" by blast
    with True show ?thesis by (simp add: prepend_def)
  next
    case False
    note nu = this
    show ?thesis
    proof (cases "isTrailSurrogate c")
      case True
      with nu show ?thesis by simp
    next
      case False
      note nt = this
      show ?thesis
      proof (cases "isLeadSurrogate c")
        case True
        note ld = this
        show ?thesis
        proof (cases cs)
          case Nil
          with nu nt ld show ?thesis by simp
        next
          case (Cons d ds)
          show ?thesis
          proof (cases "isTrailSurrogate d")
            case True
            with "2.prems" nt ld Cons have "\<not> isWellFormed ds" by simp
            with "2.IH"(2) [OF nu nt ld Cons True] have "encodeURIComponent ds = Inl URIError" .
            with nu nt ld Cons True show ?thesis by (simp add: prepend_def)
          next
            case False
            with nu nt ld Cons show ?thesis by simp
          qed
        qed
      next
        case False
        with "2.prems" nt have "\<not> isWellFormed cs" by simp
        with "2.IH"(3) [OF nu nt False] have "encodeURIComponent cs = Inl URIError" .
        with nu nt False show ?thesis by (simp add: prepend_def)
      qed
    qed
  qed
qed

lemma hexUpper_unreserved: "d < 16 \<Longrightarrow> uriUnreserved (hexUpper d)"
proof -
  assume "d < 16"
  then have "d \<in> {0,1,2,3,4,5,6,7,8,9,10,11,12,13,14,15}" by simp arith
  then show ?thesis
    by (auto simp: hexUpper_def uriUnreserved_def js_def)
qed

lemma percentOctet_chars:
  "b < 256 \<Longrightarrow> c \<in> set (percentOctet b) \<Longrightarrow> uriUnreserved c \<or> c = 0x25"
  by (auto simp: percentOctet_def intro!: hexUpper_unreserved)

lemma utf8_octets: "cp < 0x110000 \<Longrightarrow> b \<in> set (utf8 cp) \<Longrightarrow> b < 256"
  by (auto simp: utf8_def split: if_splits)

lemma percentEncode_chars:
  "cp < 0x110000 \<Longrightarrow> c \<in> set (percentEncode cp) \<Longrightarrow> uriUnreserved c \<or> c = 0x25"
  by (auto simp: percentEncode_def dest: utf8_octets percentOctet_chars)

lemma unat_code_unit: "unat (c :: 16 word) < 0x110000"
  using unsigned_less [of c, where ?'a = nat] by simp

lemma pair_code_point:
  assumes "isLeadSurrogate c" and "isTrailSurrogate d"
  shows "surrogatePairToCodePoint c d < 0x110000"
proof -
  have c: "unat c \<le> 0xDBFF" and d: "unat d \<le> 0xDFFF"
    using assms by (simp_all add: isLeadSurrogate_def isTrailSurrogate_def word_le_nat_alt)
  have "(unat c - 0xD800) * 0x400 \<le> 0x3FF * 0x400"
    using c by (intro mult_le_mono1) simp
  then show ?thesis
    using d by (simp add: surrogatePairToCodePoint_def)
qed

lemma prepend_chars:
  assumes "prepend p r = Inr e" and "x \<in> set e"
  shows "x \<in> set p \<or> (\<exists>e'. r = Inr e' \<and> x \<in> set e')"
  using assms by (cases r) (auto simp: prepend_def)

lemma encode_chars:
  "encodeURIComponent s = Inr e \<Longrightarrow> x \<in> set e \<Longrightarrow> uriUnreserved x \<or> x = 0x25"
proof (induction s arbitrary: e rule: encodeURIComponent.induct)
  case 1
  then show ?case by simp
next
  case (2 c cs)
  show ?case
  proof (cases "uriUnreserved c")
    case True
    with "2.prems"(1) have "prepend [c] (encodeURIComponent cs) = Inr e" by simp
    from prepend_chars [OF this "2.prems"(2)] True "2.IH"(1) show ?thesis by auto
  next
    case False
    note nu = this
    from "2.prems"(1) nu have nt: "\<not> isTrailSurrogate c" by (auto split: if_splits)
    show ?thesis
    proof (cases "isLeadSurrogate c")
      case True
      note ld = this
      from "2.prems"(1) nu nt ld obtain d ds where cs: "cs = d # ds"
        and d: "isTrailSurrogate d"
        and p: "prepend (percentEncode (surrogatePairToCodePoint c d)) (encodeURIComponent ds)
                  = Inr e"
        by (cases cs) (auto split: if_splits)
      from prepend_chars [OF p "2.prems"(2)]
      show ?thesis
      proof
        assume "x \<in> set (percentEncode (surrogatePairToCodePoint c d))"
        with percentEncode_chars [OF pair_code_point [OF ld d]] show ?thesis by blast
      next
        assume "\<exists>e'. encodeURIComponent ds = Inr e' \<and> x \<in> set e'"
        with "2.IH"(2) [OF nu nt ld cs d] show ?thesis by blast
      qed
    next
      case False
      with "2.prems"(1) nu nt
      have p: "prepend (percentEncode (unat c)) (encodeURIComponent cs) = Inr e" by simp
      from prepend_chars [OF p "2.prems"(2)]
      show ?thesis
      proof
        assume "x \<in> set (percentEncode (unat c))"
        with percentEncode_chars [OF unat_code_unit] show ?thesis by blast
      next
        assume "\<exists>e'. encodeURIComponent cs = Inr e' \<and> x \<in> set e'"
        with "2.IH"(3) [OF nu nt False] show ?thesis by blast
      qed
    qed
  qed
qed

lemma split_first: "\<exists>rest. split sep s = takeWhile (\<lambda>c. c \<noteq> sep) s # rest"
  by (induction s) (auto split: list.splits)

subsection \<open>The notification request\<close>

text \<open>
  C3, as stated, fails, in two ways. The correlation identifier made of the single code
  unit \<open>D800\<close>, an unpaired surrogate, is not empty, and \<open>encodeURIComponent\<close> throws
  \<open>URIError\<close> on it. An upload result that refers to itself is not empty, and
  \<open>JSON.stringify\<close> throws \<open>TypeError\<close> on it; for one whose \<open>toJSON\<close> returns \<open>undefined\<close>,
  \<open>body.length\<close> throws \<open>TypeError\<close>. In each case \<open>notifyUploadComplete\<close> throws and gives
  the transport no request.
\<close>

theorem notification_request_counterexample:
  "notifyUploadComplete example_env example_api (Val [0xD800])
     (Val (AuthString (js ''sas'')) :: unit auth js_arg) (Val Uploaded) Callback = Inl URIError
   \<and> notifyUploadComplete example_env example_api (Val (js ''c1''))
     (Val (AuthString (js ''sas'')) :: unit auth js_arg) (Val Cyclic) Callback = Inl TypeError
   \<and> notifyUploadComplete example_env example_api (Val (js ''c1''))
     (Val (AuthString (js ''sas'')) :: unit auth js_arg) (Val ToJSONUndefined) Callback
     = Inl TypeError"
proof -
  have e: "encodeURIComponent (js ''c1'') = Inr (js ''c1'')"
    by code_simp
  have u: "encodeURIComponent [0xD800] = Inl URIError"
    by (simp add: uriUnreserved_def js_def isTrailSurrogate_def isLeadSurrogate_def)
  show ?thesis
    using e u by (simp add: notifyUploadComplete_def example_env_def) (simp add: js_def)
qed

text \<open>
  C3, amended. For a non-empty correlation identifier without unpaired surrogate (one
  with \<open>/\<close> included), an \<open>auth\<close> that is an object or a non-empty string and an upload
  result for which \<open>JSON.stringify\<close> returns a text, \<open>notifyUploadComplete\<close> gives the
  transport a \<open>POST\<close> to
  \<open>/devices/<deviceId>/files/notifications/<encoded>?api-version=<api-version>\<close>, where
  \<open>encoded\<close> is the percent-encoded identifier, made only of unreserved characters and
  \<open>%\<close>; the body is that JSON text of the upload result, and the header \<open>iothub-name\<close>
  is the hostname up to its first dot.
\<close>

theorem notification_request:
  assumes "correlationId \<noteq> []" and "isWellFormed correlationId"
    and "auth = AuthObject x \<or> (auth = AuthString s \<and> s \<noteq> [])"
    and "stringify_uploadResult env uploadResult = Inr (Some body)"
  shows "\<exists>req encoded.
     notifyUploadComplete env this (Val correlationId) (Val auth) (Val uploadResult) done
       = Inr req
     \<and> encodeURIComponent correlationId = Inr encoded
     \<and> (\<forall>c \<in> set encoded. uriUnreserved c \<or> c = 0x25)
     \<and> req_transport req = http this
     \<and> req_method req = js ''POST''
     \<and> req_path req = js ''/devices/'' @ deviceId this @ js ''/files/notifications/'' @ encoded
          @ js ''?api-version='' @ apiVersion env
     \<and> req_host req = hostname this
     \<and> req_written req = [body] \<and> req_ended req
     \<and> map_of (req_headers req) (js ''iothub-name'') =
          Some (HString (takeWhile (\<lambda>c. c \<noteq> 0x2E) (hostname this)))"
proof -
  from encode_well_formed [OF assms(2)] obtain encoded
    where enc: "encodeURIComponent correlationId = Inr encoded" by blast
  have chars: "\<forall>c \<in> set encoded. uriUnreserved c \<or> c = 0x25"
    using encode_chars [OF enc] by blast
  obtain rest where sp: "split 0x2E (hostname this)
      = takeWhile (\<lambda>c. c \<noteq> 0x2E) (hostname this) # rest"
    using split_first [of "0x2E" "hostname this"] by auto
  have names: "js ''iothub-name'' \<noteq> js ''Host''" "js ''iothub-name'' \<noteq> js ''User-Agent''"
    "js ''iothub-name'' \<noteq> js ''Content-Type''" "js ''iothub-name'' \<noteq> js ''Content-Length''"
    by (simp_all add: js_def)
  show ?thesis
    using assms(1,3,4) enc chars
    by (auto simp: notifyUploadComplete_def Let_def sp names devicePath_def
          versionQueryString_def)
qed

theorem notification_request_witness:
  "\<exists>req. notifyUploadComplete example_env example_api (Val (js ''a/b''))
            (Val (AuthString (js ''sas'')) :: unit auth js_arg) (Val Uploaded) Callback = Inr req
     \<and> req_path req = js ''/devices/dev1/files/notifications/a%2Fb?api-version=2016-11-14''
     \<and> req_written req = [js ''{}'']
     \<and> map_of (req_headers req) (js ''iothub-name'') = Some (HString (js ''hub''))"
proof -
  have n: "js ''a/b'' \<noteq> []" by (simp add: js_def)
  have w: "isWellFormed (js ''a/b'')"
    by (simp add: js_def isTrailSurrogate_def isLeadSurrogate_def)
  have e: "encodeURIComponent (js ''a/b'') = Inr (js ''a%2Fb'')"
    by code_simp
  have a: "AuthString (js ''sas'') = AuthObject ()
           \<or> (AuthString (js ''sas'') = AuthString (js ''sas'') \<and> js ''sas'' \<noteq> [])"
    by (simp add: js_def)
  have b: "stringify_uploadResult example_env Uploaded = Inr (Some (js ''{}''))"
    by (simp add: example_env_def)
  from notification_request [OF n w a b, of example_api Callback]
  obtain req encoded where
    r: "notifyUploadComplete example_env example_api (Val (js ''a/b''))
          (Val (AuthString (js ''sas'')) :: unit auth js_arg) (Val Uploaded) Callback = Inr req"
    and "encodeURIComponent (js ''a/b'') = Inr encoded"
    and p: "req_path req = js ''/devices/'' @ deviceId example_api
          @ js ''/files/notifications/'' @ encoded @ js ''?api-version='' @ apiVersion example_env"
    and b: "req_written req = [js ''{}'']"
    and h: "map_of (req_headers req) (js ''iothub-name'') =
          Some (HString (takeWhile (\<lambda>c. c \<noteq> 0x2E) (hostname example_api)))"
    by auto
  with e have "encoded = js ''a%2Fb''" by simp
  with r p b h show ?thesis
    by (simp add: example_env_def example_api_def js_def)
qed

section \<open>Properties of the connection string parser\<close>

lemma field_cut:
  assumes "sep \<notin> set k"
  shows "takeWhile (\<lambda>c. c \<noteq> sep) (k @ [sep] @ v) = k"
    and "tl (dropWhile (\<lambda>c. c \<noteq> sep) (k @ [sep] @ v)) = v"
proof -
  from assms have all: "\<forall>c \<in> set k. c \<noteq> sep" by blast
  then show "takeWhile (\<lambda>c. c \<noteq> sep) (k @ [sep] @ v) = k"
    by (simp add: takeWhile_append2)
  from all have "dropWhile (\<lambda>c. c \<noteq> sep) (k @ [sep] @ v) = sep # v"
    by (simp add: dropWhile_append2)
  then show "tl (dropWhile (\<lambda>c. c \<noteq> sep) (k @ [sep] @ v)) = v" by simp
qed

lemma field_shape:
  assumes "sep \<in> set p"
  shows "p = takeWhile (\<lambda>c. c \<noteq> sep) p @ [sep] @ tl (dropWhile (\<lambda>c. c \<noteq> sep) p)"
    and "sep \<notin> set (takeWhile (\<lambda>c. c \<noteq> sep) p)"
proof -
  from assms have "dropWhile (\<lambda>c. c \<noteq> sep) p \<noteq> []" by auto
  then obtain y ys where d: "dropWhile (\<lambda>c. c \<noteq> sep) p = y # ys"
    by (cases "dropWhile (\<lambda>c. c \<noteq> sep) p") auto
  then have "y = sep" using hd_dropWhile [of "\<lambda>c. c \<noteq> sep" p] by auto
  with d have "takeWhile (\<lambda>c. c \<noteq> sep) p @ [sep] @ tl (dropWhile (\<lambda>c. c \<noteq> sep) p)
      = takeWhile (\<lambda>c. c \<noteq> sep) p @ dropWhile (\<lambda>c. c \<noteq> sep) p" by simp
  then show "p = takeWhile (\<lambda>c. c \<noteq> sep) p @ [sep] @ tl (dropWhile (\<lambda>c. c \<noteq> sep) p)"
    by simp
  show "sep \<notin> set (takeWhile (\<lambda>c. c \<noteq> sep) p)"
    using set_takeWhileD by fastforce
qed

lemma addField_lookup:
  "addField m p k = Some v \<Longrightarrow>
     m k = Some v \<or> (0x3D \<notin> set k \<and> p = k @ [0x3D] @ v)"
  using field_shape [of "0x3D" p]
  by (auto simp: addField_def split: if_splits)

lemma fold_lookup_Some:
  "foldl addField m parts k = Some v \<Longrightarrow>
     m k = Some v \<or> (0x3D \<notin> set k \<and> k @ [0x3D] @ v \<in> set parts)"
proof (induction parts arbitrary: m)
  case Nil
  then show ?case by simp
next
  case (Cons p ps)
  from Cons.prems have "foldl addField (addField m p) ps k = Some v" by simp
  from Cons.IH [OF this] show ?case
  proof
    assume "addField m p k = Some v"
    from addField_lookup [OF this] show ?thesis by auto
  next
    assume "0x3D \<notin> set k \<and> k @ [0x3D] @ v \<in> set ps"
    then show ?thesis by simp
  qed
qed

lemma addField_keeps: "m k \<noteq> None \<Longrightarrow> addField m p k \<noteq> None"
  by (simp add: addField_def)

lemma fold_keeps: "m k \<noteq> None \<Longrightarrow> foldl addField m parts k \<noteq> None"
proof (induction parts arbitrary: m)
  case Nil
  then show ?case by simp
next
  case (Cons p ps)
  from Cons.prems have "addField m p k \<noteq> None" by (rule addField_keeps)
  then have "foldl addField (addField m p) ps k \<noteq> None" by (rule Cons.IH)
  then show ?case by simp
qed

lemma addField_adds: "0x3D \<notin> set k \<Longrightarrow> addField m (k @ [0x3D] @ v) k = Some v"
  using field_cut [of "0x3D" k v] by (simp add: addField_def)

lemma fold_lookup_present:
  "0x3D \<notin> set k \<Longrightarrow> k @ [0x3D] @ v \<in> set parts \<Longrightarrow> foldl addField m parts k \<noteq> None"
proof (induction parts arbitrary: m)
  case Nil
  then show ?case by simp
next
  case (Cons p ps)
  show ?case
  proof (cases "p = k @ [0x3D] @ v")
    case True
    have "addField m p k = Some v"
      unfolding True by (rule addField_adds [OF Cons.prems(1)])
    then have "addField m p k \<noteq> None" by simp
    then have "foldl addField (addField m p) ps k \<noteq> None" by (rule fold_keeps)
    then show ?thesis by simp
  next
    case False
    with Cons.prems have "k @ [0x3D] @ v \<in> set ps" by simp
    from Cons.IH [OF Cons.prems(1) this] show ?thesis by simp
  qed
qed

lemma firstMissing_None: "firstMissing m ks = None \<longleftrightarrow> (\<forall>k \<in> set ks. m k \<noteq> None)"
  by (induction ks) auto

lemma firstMissing_Some: "firstMissing m ks = Some k \<Longrightarrow> k \<in> set ks \<and> m k = None"
  by (induction ks) (auto split: if_splits)

lemma parsed_field:
  "foldl addField Map.empty (split 0x3B source) k = Some v \<Longrightarrow> hasField source k v"
  using fold_lookup_Some [of Map.empty "split 0x3B source" k v]
  by (simp add: hasField_def)

lemma field_parsed:
  "hasField source k v \<Longrightarrow> foldl addField Map.empty (split 0x3B source) k \<noteq> None"
  using fold_lookup_present [of k v "split 0x3B source" Map.empty]
  by (simp add: hasField_def)


lemma parse_example:
  "parse (js ''HostName=h;SharedAccessKeyName=n;SharedAccessKey=k'') =
     Inr [js ''HostName'' \<mapsto> js ''h'', js ''SharedAccessKeyName'' \<mapsto> js ''n'',
          js ''SharedAccessKey'' \<mapsto> js ''k'']"
  by (simp add: parse_def ConnectionString_parse_def addField_def js_def)

text \<open>
  C5. For every source string: when each of \<open>HostName\<close>, \<open>SharedAccessKeyName\<close> and
  \<open>SharedAccessKey\<close> is a field of the source, \<open>parse\<close> returns a mapping that gives each
  of them a value it has in the source; when one of them is not a field of the source,
  \<open>parse\<close> fails with an argument error that names a missing one. In particular
  \<open>HostName=h;SharedAccessKeyName=n;SharedAccessKey=k\<close> is parsed to the mapping of
  \<open>HostName\<close> to \<open>h\<close>, \<open>SharedAccessKeyName\<close> to \<open>n\<close> and \<open>SharedAccessKey\<close> to \<open>k\<close>.
\<close>

theorem parse_required_fields:
  "((\<forall>k \<in> set [js ''HostName'', js ''SharedAccessKeyName'', js ''SharedAccessKey''].
        \<exists>v. hasField source k v) \<longrightarrow>
      (\<exists>m. parse source = Inr m
         \<and> (\<forall>k \<in> set [js ''HostName'', js ''SharedAccessKeyName'', js ''SharedAccessKey''].
               \<exists>v. m k = Some v \<and> hasField source k v)))
   \<and> ((\<exists>k \<in> set [js ''HostName'', js ''SharedAccessKeyName'', js ''SharedAccessKey''].
         \<forall>v. \<not> hasField source k v) \<longrightarrow>
      (\<exists>k \<in> set [js ''HostName'', js ''SharedAccessKeyName'', js ''SharedAccessKey''].
         (\<forall>v. \<not> hasField source k v) \<and> parse source = Inl (ArgumentError k)))
   \<and> parse (js ''HostName=h;SharedAccessKeyName=n;SharedAccessKey=k'') =
       Inr [js ''HostName'' \<mapsto> js ''h'', js ''SharedAccessKeyName'' \<mapsto> js ''n'',
            js ''SharedAccessKey'' \<mapsto> js ''k'']"
proof (intro conjI impI)
  let ?req = "[js ''HostName'', js ''SharedAccessKeyName'', js ''SharedAccessKey'']"
  let ?m = "foldl addField Map.empty (split 0x3B source)"
  {
    assume all: "\<forall>k \<in> set ?req. \<exists>v. hasField source k v"
    then have "\<forall>k \<in> set ?req. ?m k \<noteq> None"
      using field_parsed by blast
    then have "firstMissing ?m ?req = None"
      using firstMissing_None by blast
    then have p: "parse source = Inr ?m"
      by (simp add: parse_def ConnectionString_parse_def)
    have "\<forall>k \<in> set ?req. \<exists>v. ?m k = Some v \<and> hasField source k v"
    proof
      fix k assume "k \<in> set ?req"
      with \<open>\<forall>k \<in> set ?req. ?m k \<noteq> None\<close> obtain v where v: "?m k = Some v" by blast
      from parsed_field [OF v] v show "\<exists>v. ?m k = Some v \<and> hasField source k v" by blast
    qed
    with p show "\<exists>m. parse source = Inr m
         \<and> (\<forall>k \<in> set ?req. \<exists>v. m k = Some v \<and> hasField source k v)" by blast
  }
  {
    assume "\<exists>k \<in> set ?req. \<forall>v. \<not> hasField source k v"
    then obtain k where k: "k \<in> set ?req" and nv: "\<forall>v. \<not> hasField source k v" by blast
    have "?m k = None"
    proof (cases "?m k")
      case None
      then show ?thesis .
    next
      case (Some v)
      from parsed_field [OF Some] nv show ?thesis by blast
    qed
    with k have "\<not> (\<forall>k \<in> set ?req. ?m k \<noteq> None)" by blast
    then have "firstMissing ?m ?req \<noteq> None"
      using firstMissing_None by blast
    then obtain k' where f: "firstMissing ?m ?req = Some k'" by blast
    from firstMissing_Some [OF f] have k': "k' \<in> set ?req" and n: "?m k' = None" by blast+
    from n field_parsed have "\<forall>v. \<not> hasField source k' v" by blast
    moreover from f have "parse source = Inl (ArgumentError k')"
      by (simp add: parse_def ConnectionString_parse_def)
    ultimately show "\<exists>k \<in> set ?req.
         (\<forall>v. \<not> hasField source k v) \<and> parse source = Inl (ArgumentError k)"
      using k' by blast
  }
  show "parse (js ''HostName=h;SharedAccessKeyName=n;SharedAccessKey=k'') =
       Inr [js ''HostName'' \<mapsto> js ''h'', js ''SharedAccessKeyName'' \<mapsto> js ''n'',
            js ''SharedAccessKey'' \<mapsto> js ''k'']"
    by (rule parse_example)
qed

theorem parse_required_fields_witness:
  "(\<exists>k \<in> set [js ''HostName'', js ''SharedAccessKeyName'', js ''SharedAccessKey''].
      parse (js ''HostName=h;SharedAccessKeyName=n'') = Inl (ArgumentError k))
   \<and> parse (js ''HostName=h;SharedAccessKeyName=n;SharedAccessKey=k'') =
       Inr [js ''HostName'' \<mapsto> js ''h'', js ''SharedAccessKeyName'' \<mapsto> js ''n'',
            js ''SharedAccessKey'' \<mapsto> js ''k'']"
proof -
  have "\<forall>v. \<not> hasField (js ''HostName=h;SharedAccessKeyName=n'') (js ''SharedAccessKey'') v"
    by (simp add: hasField_def js_def)
  then have "\<exists>k \<in> set [js ''HostName'', js ''SharedAccessKeyName'', js ''SharedAccessKey''].
      \<forall>v. \<not> hasField (js ''HostName=h;SharedAccessKeyName=n'') k v"
    by simp
  with parse_required_fields [of "js ''HostName=h;SharedAccessKeyName=n''"]
  show ?thesis by blast
qed

end
